theory Spec2Isabelle
  imports Complex_Main "HOL-Library.AList" "HOL-Library.Sublist"
begin

section \<open>Data model of the \<open>match\<close> step (src/lpath/match.py)\<close>

text \<open>
  Exceptions of the Python code are values: every \<open>raise\<close> (explicit, or implied by an
  indexing, a dictionary lookup, a division or a numpy call) is an \<open>Inl\<close> result.
\<close>

datatype error = KeyError | ZeroDivisionError | IndexError | ValueError
  | AssertionError | FileNotFoundError

text \<open>
  A frame is one row of the \<open>pathways\<close> array: \<open>iter_id/seg_id/state_id/
  pcoord_or_auxdata/frame#/weight\<close>. The code reads column 0 (iteration), column 1
  (segment), column 2 (state) and column \<open>-1\<close> (weight); the columns between the state
  and the weight are carried along untouched. Python floats are modelled as exact
  rationals: the properties proved here rest on comparison, on the maximum and on
  quotients of small integers, where correctly rounded division agrees with the
  exact one on order and on the values \<open>0\<close> and \<open>1\<close>.
\<close>

record frame =
  iter_id :: int
  seg_id :: int
  state_id :: int
  aux :: "rat list"
  weight :: rat

type_synonym pathway = "frame list"

text \<open>
  The symbol dictionary is a Python \<open>dict\<close> from state id to state string. It is an
  association list in insertion order; \<open>len(dictionary)\<close> is its length (keys are kept
  distinct by \<open>dict_set\<close>), \<open>dictionary[x]\<close> raises \<open>KeyError\<close> on a missing key.
  The type of the symbols is left open: only their equality is ever used.
\<close>

type_synonym 'c dictionary = "(int \<times> 'c list) list"

definition dict_len :: "'c dictionary \<Rightarrow> int" where
  "dict_len d = int (length d)"

definition dict_get :: "'c dictionary \<Rightarrow> int \<Rightarrow> error + 'c list" where
  "dict_get d x = (case map_of d x of None \<Rightarrow> Inl KeyError | Some s \<Rightarrow> Inr s)"

definition dict_set :: "'c dictionary \<Rightarrow> int \<Rightarrow> 'c list \<Rightarrow> 'c dictionary" where
  "dict_set d k v = AList.update k v d"

section \<open>The string metrics of the external library\<close>

text \<open>
  Modelled from the spec: \<open>pylcs.lcs_sequence_length\<close> and \<open>pylcs.lcs_string_length\<close>
  belong to an external library that is not under src/. The spec names what they
  compute: the longest-common-subsequence length and the longest-common-substring
  length of two strings.
\<close>

fun lcs_sequence_length :: "'c list \<Rightarrow> 'c list \<Rightarrow> nat" where
  "lcs_sequence_length [] ys = 0"
| "lcs_sequence_length (x # xs) [] = 0"
| "lcs_sequence_length (x # xs) (y # ys) =
     (if x = y then Suc (lcs_sequence_length xs ys)
      else max (lcs_sequence_length xs (y # ys)) (lcs_sequence_length (x # xs) ys))"

text \<open>Length of the longest common prefix of two strings.\<close>

fun common_prefix_length :: "'c list \<Rightarrow> 'c list \<Rightarrow> nat" where
  "common_prefix_length (x # xs) (y # ys) =
     (if x = y then Suc (common_prefix_length xs ys) else 0)"
| "common_prefix_length xs ys = 0"

text \<open>The longest block of \<open>ys\<close> that is a prefix of \<open>xs\<close>, over every start in \<open>ys\<close>.\<close>

fun longest_match_at :: "'c list \<Rightarrow> 'c list \<Rightarrow> nat" where
  "longest_match_at xs [] = 0"
| "longest_match_at xs (y # ys) =
     max (common_prefix_length xs (y # ys)) (longest_match_at xs ys)"

fun lcs_string_length :: "'c list \<Rightarrow> 'c list \<Rightarrow> nat" where
  "lcs_string_length [] ys = 0"
| "lcs_string_length (x # xs) ys =
     max (longest_match_at (x # xs) ys) (lcs_string_length xs ys)"

section \<open>Distances between two pathways\<close>

text \<open>\<open>"".join(dictionary[x] for x in seq)\<close>: the first missing key raises.\<close>

fun join_states :: "'c dictionary \<Rightarrow> int list \<Rightarrow> error + 'c list" where
  "join_states d [] = Inr []"
| "join_states d (x # xs) =
     (case dict_get d x of
        Inl e \<Rightarrow> Inl e
      | Inr s \<Rightarrow> (case join_states d xs of Inl e \<Rightarrow> Inl e | Inr r \<Rightarrow> Inr (s @ r)))"

text \<open>
  \<open>similarity = (2 * km) / int(len(seq1_str) + len(seq2_str)); return 1 - similarity\<close>:
  a true division of Python integers, which raises on a zero divisor.
\<close>

definition one_minus_similarity :: "nat \<Rightarrow> nat \<Rightarrow> nat \<Rightarrow> error + rat" where
  "one_minus_similarity km len1 len2 =
     (if len1 + len2 = 0 then Inl ZeroDivisionError
      else Inr (1 - of_nat (2 * km) / of_nat (len1 + len2)))"

text \<open>\<open>seq[seq < len(dictionary) - 1]\<close>: the entries below the unknown index.\<close>

definition strip_unknown :: "'c dictionary \<Rightarrow> int list \<Rightarrow> int list" where
  "strip_unknown d seq = filter (\<lambda>x. x < dict_len d - 1) seq"

definition calc_dist :: "int list \<Rightarrow> int list \<Rightarrow> 'c dictionary \<Rightarrow> error + rat" where
  "calc_dist seq1 seq2 d =
     (case join_states d (strip_unknown d seq1) of
        Inl e \<Rightarrow> Inl e
      | Inr seq1_str \<Rightarrow>
         (case join_states d (strip_unknown d seq2) of
            Inl e \<Rightarrow> Inl e
          | Inr seq2_str \<Rightarrow>
              one_minus_similarity (lcs_sequence_length seq1_str seq2_str)
                (length seq1_str) (length seq2_str)))"

definition calc_dist_substr :: "int list \<Rightarrow> int list \<Rightarrow> 'c dictionary \<Rightarrow> error + rat" where
  "calc_dist_substr seq1 seq2 d =
     (case join_states d seq1 of
        Inl e \<Rightarrow> Inl e
      | Inr seq1_str \<Rightarrow>
         (case join_states d seq2 of
            Inl e \<Rightarrow> Inl e
          | Inr seq2_str \<Rightarrow>
              one_minus_similarity (lcs_string_length seq1_str seq2_str)
                (length seq1_str) (length seq2_str)))"

section \<open>Loading and reassignment\<close>

text \<open>
  \<open>load_data\<close>, after unpickling: the assertion on an empty pickle, the longest pathway
  and the all-zero \<open>pathways\<close> array of shape \<open>(npathways, lpathways, n)\<close>. All rows of
  one run have the same number of columns; the zero row takes its auxiliary columns
  from \<open>data[0][0]\<close>.
\<close>

definition zero_frame :: "nat \<Rightarrow> frame" where
  "zero_frame k = \<lparr>iter_id = 0, seg_id = 0, state_id = 0, aux = replicate k 0, weight = 0\<rparr>"

definition load_data :: "pathway list \<Rightarrow> error + pathway list \<times> pathway list" where
  "load_data data =
     (if data = [] then Inl AssertionError
      else if hd data = [] then Inl IndexError
      else Inr (data,
             replicate (length data)
               (replicate (fold max (map length (tl data)) (length (hd data)))
                  (zero_frame (length (aux (hd (hd data))))))))"

text \<open>
  The two nested loops shared by the reassignment functions:
  \<open>for idx, val in enumerate(data): for idx2, val2 in enumerate(flipped_val)\<close> with the
  writes \<open>pathways[idx, idx2] = ...\<close> done in place. \<open>g\<close> is what the loop body leaves in
  the row; a write outside the array raises \<open>IndexError\<close>.
\<close>

fun copy_frames ::
  "(frame \<Rightarrow> frame) \<Rightarrow> nat \<Rightarrow> nat \<Rightarrow> frame list \<Rightarrow> pathway list \<Rightarrow> error + pathway list" where
  "copy_frames g idx idx2 [] pathways = Inr pathways"
| "copy_frames g idx idx2 (val2 # rest) pathways =
     (if idx < length pathways \<and> idx2 < length (pathways ! idx)
      then copy_frames g idx (Suc idx2) rest
             (pathways[idx := (pathways ! idx)[idx2 := g val2]])
      else Inl IndexError)"

fun copy_data ::
  "(frame \<Rightarrow> frame) \<Rightarrow> nat \<Rightarrow> pathway list \<Rightarrow> pathway list \<Rightarrow> error + pathway list" where
  "copy_data g idx [] pathways = Inr pathways"
| "copy_data g idx (val # rest) pathways =
     (case copy_frames g idx 0 (rev val) pathways of
        Inl e \<Rightarrow> Inl e
      | Inr pathways' \<Rightarrow> copy_data g (Suc idx) rest pathways')"

text \<open>Python's \<open>max\<close> of a list: \<open>ValueError\<close> on the empty list.\<close>

fun py_max :: "int list \<Rightarrow> error + int" where
  "py_max [] = Inl ValueError"
| "py_max (x # xs) = Inr (fold max xs x)"

text \<open>
  \<open>chr\<close> gives the character of a code point, and raises outside \<open>0..0x10FFFF\<close>.
  A character of a state string of \<open>reassign_segid\<close> is its code point: \<open>'A'\<close> is 65,
  \<open>'!'\<close> is 33.
\<close>

definition chr :: "int \<Rightarrow> error + nat" where
  "chr i = (if 0 \<le> i \<and> i \<le> 1114111 then Inr (nat i) else Inl ValueError)"

text \<open>\<open>for idx in range(n_states): dictionary[idx] = chr(idx + 65)\<close>\<close>

fun fill_letters :: "int list \<Rightarrow> nat dictionary \<Rightarrow> error + nat dictionary" where
  "fill_letters [] d = Inr d"
| "fill_letters (idx # rest) d =
     (case chr (idx + 65) of
        Inl e \<Rightarrow> Inl e
      | Inr c \<Rightarrow> fill_letters rest (dict_set d idx [c]))"

text \<open>\<open>pathways[idx, idx2] = val2; pathways[idx, idx2, 2] = val2[1]\<close>\<close>

definition segid_row :: "frame \<Rightarrow> frame" where
  "segid_row val2 = val2\<lparr>state_id := seg_id val2\<rparr>"

text \<open>
  \<open>reassign_segid\<close> mutates \<open>pathways\<close> and \<open>dictionary\<close> and returns the dictionary;
  the model returns both.
\<close>

definition reassign_segid ::
  "pathway list \<Rightarrow> pathway list \<Rightarrow> nat dictionary \<Rightarrow> error + pathway list \<times> nat dictionary" where
  "reassign_segid data pathways dictionary =
     (case copy_data segid_row 0 data pathways of
        Inl e \<Rightarrow> Inl e
      | Inr pathways' \<Rightarrow>
         (case py_max (map state_id (concat pathways')) of
            Inl e \<Rightarrow> Inl e
          | Inr m \<Rightarrow>
             (let n_states = m + 1 in
              case fill_letters [0..n_states - 1] dictionary of
                Inl e \<Rightarrow> Inl e
              | Inr d \<Rightarrow> Inr (pathways', dict_set d n_states [33]))))"

section \<open>Padding\<close>

definition expand_shorter_traj :: "pathway list \<Rightarrow> 'c dictionary \<Rightarrow> pathway list" where
  "expand_shorter_traj pathways d =
     map (map (\<lambda>step. if iter_id step = 0 then step\<lparr>state_id := dict_len d - 1\<rparr> else step))
       pathways"

section \<open>The distance matrix\<close>

text \<open>The first error of a list of results, or all the values.\<close>

fun collect :: "(error + 'a) list \<Rightarrow> error + 'a list" where
  "collect [] = Inr []"
| "collect (r # rs) =
     (case r of
        Inl e \<Rightarrow> Inl e
      | Inr v \<Rightarrow> (case collect rs of Inl e \<Rightarrow> Inl e | Inr vs \<Rightarrow> Inr (v # vs)))"

text \<open>
  Modelled from the spec: \<open>sklearn.metrics.pairwise_distances\<close> with a callable metric is
  an external library that is not under src/. The spec has the upper triangle computed
  and mirrored (\<open>distance(i,j) = distance(j,i)\<close>); the library computes a diagonal entry
  as the metric of a row with itself, which is kept here. An entry that raises makes
  the whole call raise; which of several failing entries is met first is the row-wise
  order here and is not relied on.
\<close>

definition pair_entry :: "('a \<Rightarrow> 'a \<Rightarrow> error + rat) \<Rightarrow> 'a list \<Rightarrow> nat \<Rightarrow> nat \<Rightarrow> error + rat" where
  "pair_entry metric X i j =
     (if i < j then metric (X ! i) (X ! j)
      else if j < i then metric (X ! j) (X ! i)
      else metric (X ! i) (X ! i))"

definition pairwise_distances ::
  "('a \<Rightarrow> 'a \<Rightarrow> error + rat) \<Rightarrow> 'a list \<Rightarrow> error + rat list list" where
  "pairwise_distances metric X =
     collect (map (\<lambda>i. collect (map (\<lambda>j. pair_entry metric X i j) [0..<length X]))
                [0..<length X])"

text \<open>
  The files that matter to \<open>gen_dist_matrix\<close> are saved matrices: the file system maps a
  path to the matrix stored there. \<open>numpy.save\<close> appends \<open>.npy\<close> to a name that lacks
  it, \<open>numpy.load\<close> raises on a missing file, and \<open>out_dir.rsplit("/", 1)[0]\<close> is the part
  of \<open>out_dir\<close> before its last slash (all of it when there is none).
\<close>

type_synonym matrix = "rat list list"
type_synonym filesystem = "string \<rightharpoonup> matrix"

definition rsplit_head :: "string \<Rightarrow> string" where
  "rsplit_head s =
     (if CHR ''/'' \<in> set s then rev (tl (dropWhile (\<lambda>c. c \<noteq> CHR ''/'') (rev s))) else s)"

definition npy_name :: "string \<Rightarrow> string" where
  "npy_name f = (if suffix ''.npy'' f then f else f @ ''.npy'')"

definition numpy_save :: "filesystem \<Rightarrow> string \<Rightarrow> matrix \<Rightarrow> filesystem" where
  "numpy_save fs f m = fs(npy_name f \<mapsto> m)"

definition numpy_load :: "filesystem \<Rightarrow> string \<Rightarrow> error + matrix" where
  "numpy_load fs f = (case fs f of None \<Rightarrow> Inl FileNotFoundError | Some m \<Rightarrow> Inr m)"

definition exists :: "filesystem \<Rightarrow> string \<Rightarrow> bool" where
  "exists fs f = (fs f \<noteq> None)"

text \<open>
  The weight appended for one pathway: with \<open>metric\<close>,
  \<open>nonzero = pathway[pathway[:, 2] < len(dictionary) - 1]; nonzero[-1][-1]\<close>;
  without, \<open>pathway[-1][-1]\<close>. Indexing \<open>[-1]\<close> on no rows raises.
\<close>

definition pathway_weight :: "bool \<Rightarrow> 'c dictionary \<Rightarrow> pathway \<Rightarrow> error + rat" where
  "pathway_weight metric d pathway =
     (if metric then
        (let nonzero = filter (\<lambda>step. state_id step < dict_len d - 1) pathway
         in if nonzero = [] then Inl IndexError else Inr (weight (last nonzero)))
      else if pathway = [] then Inl IndexError else Inr (weight (last pathway)))"

text \<open>\<open>pathway[:, 2]\<close>\<close>

definition path_string :: "pathway \<Rightarrow> int list" where
  "path_string pathway = map state_id pathway"


text \<open>\<open>lambda x, y: calc_dist(x, y, dictionary, pbar)\<close> or its substring sibling.\<close>

definition dist_metric :: "bool \<Rightarrow> 'c dictionary \<Rightarrow> int list \<Rightarrow> int list \<Rightarrow> error + rat" where
  "dist_metric metric d x y = (if metric then calc_dist x y d else calc_dist_substr x y d)"

text \<open>
  \<open>gen_dist_matrix\<close> on a file system: the result is the pair \<open>(distmat, weights)\<close> and
  the file system it leaves.
\<close>

definition gen_dist_matrix ::
  "filesystem \<Rightarrow> pathway list \<Rightarrow> 'c dictionary \<Rightarrow> string \<Rightarrow> string \<Rightarrow> bool \<Rightarrow> bool
     \<Rightarrow> error + (matrix \<times> rat list) \<times> filesystem" where
  "gen_dist_matrix fs pathways d file_name out_dir remake metric =
     (let new_name = rsplit_head out_dir @ ''/'' @ file_name;
          path_strings = map path_string pathways
      in case collect (map (pathway_weight metric d) pathways) of
           Inl e \<Rightarrow> Inl e
         | Inr weights \<Rightarrow>
            (if \<not> exists fs new_name \<or> remake then
               (case pairwise_distances (dist_metric metric d) path_strings of
                  Inl e \<Rightarrow> Inl e
                | Inr distmat \<Rightarrow> Inr ((distmat, weights), numpy_save fs file_name distmat))
             else
               (case numpy_load fs file_name of
                  Inl e \<Rightarrow> Inl e
                | Inr distmat \<Rightarrow> Inr ((distmat, weights), fs))))"

section \<open>Representatives and the plain export\<close>

text \<open>\<open>list(range(0, max(cluster_labels) + 1))\<close> when no cluster list is given.\<close>

definition determine_clusters :: "int list \<Rightarrow> int list option \<Rightarrow> error + int list" where
  "determine_clusters cluster_labels clusters =
     (case clusters of
        None \<Rightarrow> (case py_max cluster_labels of Inl e \<Rightarrow> Inl e | Inr m \<Rightarrow> Inr [0..m])
      | Some cl \<Rightarrow> Inr cl)"

text \<open>Indexing an array by a boolean mask: the lengths must agree.\<close>

definition mask_select :: "bool list \<Rightarrow> 'a list \<Rightarrow> error + 'a list" where
  "mask_select selected xs =
     (if length selected \<noteq> length xs then Inl IndexError
      else Inr (map snd (filter fst (zip selected xs))))"

text \<open>\<open>numpy.argmax\<close>: the first index of the largest entry; it raises on no entries.\<close>

fun argmax_from :: "nat \<Rightarrow> rat \<Rightarrow> nat \<Rightarrow> rat list \<Rightarrow> nat" where
  "argmax_from best bestv i [] = best"
| "argmax_from best bestv i (w # ws) =
     (if bestv < w then argmax_from i w (Suc i) ws else argmax_from best bestv (Suc i) ws)"

definition argmax :: "rat list \<Rightarrow> error + nat" where
  "argmax ws = (case ws of [] \<Rightarrow> Inl ValueError | w # rest \<Rightarrow> Inr (argmax_from 0 w 1 rest))"

text \<open>
  \<open>select_rep\<close>: \<open>rep_weight = data_cl[numpy.argmax(weights_cl)][0]\<close> is row 0 of the
  selected pathway.
\<close>

definition select_rep ::
  "pathway list \<Rightarrow> rat list \<Rightarrow> int list \<Rightarrow> int \<Rightarrow> error + pathway list \<times> frame" where
  "select_rep data_arr weights cluster_labels icluster =
     (let selected_cluster = map (\<lambda>l. l = icluster) cluster_labels
      in case mask_select selected_cluster data_arr of
           Inl e \<Rightarrow> Inl e
         | Inr data_cl \<Rightarrow>
            (case mask_select selected_cluster weights of
               Inl e \<Rightarrow> Inl e
             | Inr weights_cl \<Rightarrow>
                (case argmax weights_cl of
                   Inl e \<Rightarrow> Inl e
                 | Inr k \<Rightarrow>
                    (if k < length data_cl \<and> data_cl ! k \<noteq> []
                     then Inr (data_cl, hd (data_cl ! k))
                     else Inl IndexError))))"

text \<open>
  The loop of \<open>export_std_files\<close>: one entry of \<open>representative_list\<close> per requested
  cluster, in order. The report file holds the printed form of each entry on a line.
\<close>

fun representative_list :: "pathway list \<Rightarrow> rat list \<Rightarrow> int list \<Rightarrow> int list \<Rightarrow> error + frame list" where
  "representative_list data_arr weights cluster_labels [] = Inr []"
| "representative_list data_arr weights cluster_labels (icluster # rest) =
     (case select_rep data_arr weights cluster_labels icluster of
        Inl e \<Rightarrow> Inl e
      | Inr (data_cl, rep_weight) \<Rightarrow>
         (case representative_list data_arr weights cluster_labels rest of
            Inl e \<Rightarrow> Inl e
          | Inr reps \<Rightarrow> Inr (rep_weight # reps)))"

definition export_std_files ::
  "pathway list \<Rightarrow> rat list \<Rightarrow> int list \<Rightarrow> int list option \<Rightarrow> error + frame list" where
  "export_std_files data_arr weights cluster_labels clusters =
     (case determine_clusters cluster_labels clusters of
        Inl e \<Rightarrow> Inl e
      | Inr cl \<Rightarrow> representative_list data_arr weights cluster_labels cl)"

section \<open>The subsequence metric as the specification words it\<close>

text \<open>
  The reference definition: strip every entry equal to the unknown index, which is
  the highest entry of the dictionary; map each remaining state id through the
  dictionary; with \<open>k\<close> the longest-common-subsequence length, the distance is
  \<open>1 - 2k / (len1 + len2)\<close>, and there is none when the quotient is undefined.
\<close>

definition unknown_index_ref :: "'c dictionary \<Rightarrow> int" where
  "unknown_index_ref d = Max (set (map fst d))"

definition state_string_ref :: "'c dictionary \<Rightarrow> int list \<Rightarrow> 'c list" where
  "state_string_ref d seq =
     concat (map (\<lambda>x. the (map_of d x)) (filter (\<lambda>x. x \<noteq> unknown_index_ref d) seq))"

definition calc_dist_ref :: "int list \<Rightarrow> int list \<Rightarrow> 'c dictionary \<Rightarrow> rat option" where
  "calc_dist_ref seq1 seq2 d =
     (let s1 = state_string_ref d seq1; s2 = state_string_ref d seq2;
          k = lcs_sequence_length s1 s2
      in if length s1 + length s2 = 0 then None
         else Some (1 - (2 * of_nat k) / (of_nat (length s1) + of_nat (length s2))))"

section \<open>Notions used to state and prove the properties\<close>



section \<open>Evaluating the model\<close>

lemmas dist_eval = calc_dist_def calc_dist_substr_def strip_unknown_def dict_len_def
  dict_get_def one_minus_similarity_def

lemmas gen_eval = gen_dist_matrix_def rsplit_head_def exists_def numpy_load_def numpy_save_def
  npy_name_def suffix_to_prefix pathway_weight_def path_string_def dist_metric_def
  pairwise_distances_def pair_entry_def

lemmas segid_eval = reassign_segid_def segid_row_def chr_def dict_set_def zero_frame_def
  upto_rec1

section \<open>Properties of the two string metrics\<close>

lemma lcs_seq_Nil2 [simp]: "lcs_sequence_length xs [] = 0"
  by (cases xs) auto
















section \<open>Helper facts about the distances and the matrix\<close>

lemma collect_map_Inr:
  "(\<And>x. x \<in> set xs \<Longrightarrow> f x = Inr (g x)) \<Longrightarrow> collect (map f xs) = Inr (map g xs)"
  by (induction xs) auto












lemma join_states_keys:
  "set xs \<subseteq> set (map fst d) \<Longrightarrow> join_states d xs = Inr (concat (map (\<lambda>x. the (map_of d x)) xs))"
proof (induction xs)
  case Nil
  then show ?case by simp
next
  case (Cons x xs)
  then have "x \<in> fst ` set d" by simp
  then obtain s where "map_of d x = Some s"
    by (metis domD dom_map_of_conv_image_fst)
  with Cons show ?case by (simp add: dict_get_def)
qed


section \<open>Helper facts about the reassignment loops\<close>

lemma copy_frames_in_range:
  "idx < length ps \<Longrightarrow> idx2 + length fs \<le> length (ps ! idx) \<Longrightarrow>
   copy_frames g idx idx2 fs ps =
     Inr (ps[idx := take idx2 (ps ! idx) @ map g fs @ drop (idx2 + length fs) (ps ! idx)])"
proof (induction fs arbitrary: idx2 ps)
  case Nil
  then show ?case by simp
next
  case (Cons v rest)
  let ?row = "ps ! idx"
  let ?ps' = "ps[idx := ?row[idx2 := g v]]"
  have lt: "idx2 < length ?row" using Cons.prems by simp
  have 1: "idx < length ?ps'" using Cons.prems by simp
  have row': "?ps' ! idx = ?row[idx2 := g v]" using Cons.prems by simp
  have 2: "Suc idx2 + length rest \<le> length (?ps' ! idx)" using Cons.prems by (simp add: row')
  have tk: "take (Suc idx2) (?row[idx2 := g v]) = take idx2 ?row @ [g v]"
    using lt by (simp add: take_Suc_conv_app_nth)
  have dr: "drop (Suc idx2 + length rest) (?row[idx2 := g v]) = drop (Suc idx2 + length rest) ?row"
    by simp
  show ?case
    using lt Cons.prems(1) Cons.IH[OF 1 2]
    by (simp add: row' tk dr)
qed

lemma copy_data_in_range:
  "idx + length data \<le> length ps \<Longrightarrow>
   (\<And>k. k < length data \<Longrightarrow> length (data ! k) \<le> length (ps ! (idx + k))) \<Longrightarrow>
   copy_data g idx data ps =
     Inr (take idx ps @
          map2 (\<lambda>val row. map g (rev val) @ drop (length val) row) data
            (take (length data) (drop idx ps)) @
          drop (idx + length data) ps)"
proof (induction data arbitrary: idx ps)
  case Nil
  then show ?case by simp
next
  case (Cons val rest)
  let ?new = "map g (rev val) @ drop (length val) (ps ! idx)"
  let ?ps' = "ps[idx := ?new]"
  have idx: "idx < length ps" using Cons.prems(1) by simp
  have len0: "length val \<le> length (ps ! idx)" using Cons.prems(2)[of 0] by simp
  have cf: "copy_frames g idx 0 (rev val) ps = Inr ?ps'"
    using copy_frames_in_range[OF idx, of 0 "rev val" g] len0 by simp
  have 1: "Suc idx + length rest \<le> length ?ps'" using Cons.prems(1) by simp
  have 2: "length (rest ! k) \<le> length (?ps' ! (Suc idx + k))" if "k < length rest" for k
    using Cons.prems(2)[of "Suc k"] that by simp
  have tk: "take (Suc idx) ?ps' = take idx ps @ [?new]"
    using idx by (simp add: take_Suc_conv_app_nth)
  have dr: "drop (Suc idx) ?ps' = drop (Suc idx) ps" by simp
  have dr2: "drop (Suc idx + length rest) ?ps' = drop (Suc idx + length rest) ps" by simp
  have hd: "drop idx ps = ps ! idx # drop (Suc idx) ps"
    using idx by (simp add: Cons_nth_drop_Suc)
  show ?case
    using Cons.IH[OF 1 2]
    by (simp add: cf tk hd)
qed


lemma dict_set_fresh: "k \<notin> fst ` set d \<Longrightarrow> dict_set d k v = d @ [(k, v)]"
  unfolding dict_set_def by (induction d) auto

lemma fill_letters_fresh:
  "distinct ks \<Longrightarrow> set ks \<inter> fst ` set d = {} \<Longrightarrow> (\<And>k. k \<in> set ks \<Longrightarrow> 0 \<le> k + 65 \<and> k + 65 \<le> 1114111) \<Longrightarrow>
   fill_letters ks d = Inr (d @ map (\<lambda>idx. (idx, [nat (idx + 65)])) ks)"
proof (induction ks arbitrary: d)
  case Nil
  then show ?case by simp
next
  case (Cons k ks)
  have c: "chr (k + 65) = Inr (nat (k + 65))"
    using Cons.prems(3)[of k] by (simp add: chr_def)
  have f: "k \<notin> fst ` set d" using Cons.prems(2) by auto
  have 1: "distinct ks" using Cons.prems(1) by simp
  have 2: "set ks \<inter> fst ` set (d @ [(k, [nat (k + 65)])]) = {}"
    using Cons.prems(1,2) by auto
  show ?case
    using Cons.IH[OF 1 2] Cons.prems(3)
    by (simp add: c dict_set_fresh[OF f])
qed

lemma map2_replicate:
  "map2 f xs (replicate (length xs) r) = map (\<lambda>x. f x r) xs"
  by (simp add: zip_replicate2 o_def)

lemma copy_data_zeros:
  assumes "\<And>val. val \<in> set data \<Longrightarrow> length val \<le> L"
  shows "copy_data g 0 data (replicate (length data) (replicate L z)) =
           Inr (map (\<lambda>val. map g (rev val) @ replicate (L - length val) z) data)"
proof -
  have "copy_data g 0 data (replicate (length data) (replicate L z)) =
     Inr (take 0 (replicate (length data) (replicate L z)) @
          map2 (\<lambda>val row. map g (rev val) @ drop (length val) row) data
            (take (length data) (drop 0 (replicate (length data) (replicate L z)))) @
          drop (0 + length data) (replicate (length data) (replicate L z)))"
    using assms by (intro copy_data_in_range) auto
  then show ?thesis
    by (simp add: map2_replicate)
qed

section \<open>Helper facts about the cache and the weights\<close>

lemma gen_dist_matrix_given_weights:
  assumes "collect (map (pathway_weight metric d) pathways) = Inr ws"
  shows "gen_dist_matrix fs pathways d file_name out_dir remake metric =
     (if exists fs (rsplit_head out_dir @ ''/'' @ file_name) \<and> \<not> remake
      then (case fs file_name of
              None \<Rightarrow> Inl FileNotFoundError
            | Some m \<Rightarrow> Inr ((m, ws), fs))
      else (case pairwise_distances (dist_metric metric d) (map path_string pathways) of
              Inl e \<Rightarrow> Inl e
            | Inr m \<Rightarrow> Inr ((m, ws), fs(npy_name file_name \<mapsto> m))))"
  using assms
  by (simp add: gen_dist_matrix_def numpy_load_def numpy_save_def
      split: option.splits sum.splits)

section \<open>Helper facts about the selection of representatives\<close>

lemma argmax_from_first_max:
  assumes "length xs = i" "best < i" "xs ! best = bestv"
      and "\<forall>j<i. xs ! j \<le> bestv" "\<forall>j<best. xs ! j < bestv"
  shows "argmax_from best bestv i ws < i + length ws \<and>
         (\<forall>j<i + length ws. (xs @ ws) ! j \<le> (xs @ ws) ! argmax_from best bestv i ws) \<and>
         (\<forall>j<argmax_from best bestv i ws. (xs @ ws) ! j < (xs @ ws) ! argmax_from best bestv i ws)"
  using assms
proof (induction ws arbitrary: xs i best bestv)
  case Nil
  then show ?case by auto
next
  case (Cons w ws)
  show ?case
  proof (cases "bestv < w")
    case True
    have a: "length (xs @ [w]) = Suc i" using Cons.prems(1) by simp
    have b: "i < Suc i" by simp
    have c: "(xs @ [w]) ! i = w" using Cons.prems(1) by (simp add: nth_append)
    have d: "\<forall>j<Suc i. (xs @ [w]) ! j \<le> w"
      using Cons.prems(1,4) True by (auto simp: nth_append less_Suc_eq)
    have e: "\<forall>j<i. (xs @ [w]) ! j < w"
      using Cons.prems(1,4) True by (auto simp: nth_append)
    show ?thesis
      using Cons.IH[OF a b c d e] True by simp
  next
    case False
    have a: "length (xs @ [w]) = Suc i" using Cons.prems(1) by simp
    have b: "best < Suc i" using Cons.prems(2) by simp
    have c: "(xs @ [w]) ! best = bestv" using Cons.prems(1,2,3) by (simp add: nth_append)
    have d: "\<forall>j<Suc i. (xs @ [w]) ! j \<le> bestv"
      using Cons.prems(1,4) False by (auto simp: nth_append less_Suc_eq)
    have e: "\<forall>j<best. (xs @ [w]) ! j < bestv"
      using Cons.prems(1,2,5) by (auto simp: nth_append)
    show ?thesis
      using Cons.IH[OF a b c d e] False by simp
  qed
qed

lemma argmax_first_max:
  assumes "ws \<noteq> []"
  shows "\<exists>k. argmax ws = Inr k \<and> k < length ws \<and> ws ! k = Max (set ws) \<and> (\<forall>j<k. ws ! j < ws ! k)"
proof -
  obtain w rest where ws: "ws = w # rest" using assms by (cases ws) auto
  define k where "k = argmax_from 0 w 1 rest"
  have *: "k < 1 + length rest \<and> (\<forall>j<1 + length rest. ([w] @ rest) ! j \<le> ([w] @ rest) ! k) \<and>
           (\<forall>j<k. ([w] @ rest) ! j < ([w] @ rest) ! k)"
    unfolding k_def by (rule argmax_from_first_max) auto
  then have k: "k < length ws" and ge: "\<forall>j<length ws. ws ! j \<le> ws ! k"
    and first: "\<forall>j<k. ws ! j < ws ! k"
    by (auto simp: ws)
  have "Max (set ws) = ws ! k"
  proof (rule Max_eqI)
    show "finite (set ws)" by simp
    show "ws ! k \<in> set ws" using k by simp
    show "y \<le> ws ! k" if "y \<in> set ws" for y
      using that ge by (auto simp: in_set_conv_nth)
  qed
  moreover have "argmax ws = Inr k" by (simp add: argmax_def ws k_def)
  ultimately show ?thesis using k first by auto
qed

lemma fold_max_Max: "fold max xs (x::int) = Max (set (x # xs))"
  by (rule Max.set_eq_fold [symmetric])

lemma mask_select_none:
  "length xs = length ls \<Longrightarrow> \<forall>l\<in>set ls. l \<noteq> c \<Longrightarrow>
     mask_select (map (\<lambda>l. l = c) ls) xs = Inr []"
  unfolding mask_select_def
  by (auto simp: filter_empty_conv in_set_zip)

lemma select_rep_empty:
  assumes "length data_arr = length cluster_labels" "length weights = length cluster_labels"
      and "\<forall>l\<in>set cluster_labels. l \<noteq> c"
  shows "select_rep data_arr weights cluster_labels c = Inl ValueError"
  using assms by (simp add: select_rep_def mask_select_none argmax_def)

section \<open>The degenerate case of the subsequence metric\<close>

text \<open>
  C2, as stated, at two pathways made of the unknown symbol only (the dictionary is
  \<open>{0: 'A', 1: 'B', 2: '!'}\<close>): both comparison strings are empty and the division
  raises; the distance is not 1.
\<close>

theorem calc_dist_both_empty_raises:
  "calc_dist [2, 2] [2] [(0, ''A''), (1, ''B''), (2, ''!'')] = Inl ZeroDivisionError"
  by (simp add: dist_eval)

text \<open>
  C2, amended: when both dictionary lookups succeed, \<open>calc_dist\<close> raises
  \<open>ZeroDivisionError\<close> if both comparison strings are empty after stripping (the 0/0
  case is not guarded and no distance, hence no not-a-number either, is produced), and
  otherwise returns the defined distance \<open>1 - 2k / (len1 + len2)\<close>.
\<close>

theorem calc_dist_defined_unless_both_empty:
  assumes "join_states d (strip_unknown d seq1) = Inr s1"
      and "join_states d (strip_unknown d seq2) = Inr s2"
  shows "calc_dist seq1 seq2 d =
           (if s1 = [] \<and> s2 = [] then Inl ZeroDivisionError
            else Inr (1 - of_nat (2 * lcs_sequence_length s1 s2) / of_nat (length s1 + length s2)))"
  using assms by (simp add: calc_dist_def one_minus_similarity_def)

theorem calc_dist_defined_unless_both_empty_witness:
  "join_states [(0, ''A''), (1, ''B''), (2, ''!'')]
     (strip_unknown [(0, ''A''), (1, ''B''), (2, ''!'')] [0, 2]) = Inr ''A'' \<and>
   join_states [(0, ''A''), (1, ''B''), (2, ''!'')]
     (strip_unknown [(0, ''A''), (1, ''B''), (2, ''!'')] [1, 0]) = Inr ''BA'' \<and>
   calc_dist [0, 2] [1, 0] [(0, ''A''), (1, ''B''), (2, ''!'')] = Inr (1 / 3) \<and>
   join_states [(0, ''A''), (1, ''B''), (2, ''!'')]
     (strip_unknown [(0, ''A''), (1, ''B''), (2, ''!'')] [2]) = Inr [] \<and>
   calc_dist [2] [2] [(0, ''A''), (1, ''B''), (2, ''!'')] = Inl ZeroDivisionError"
proof -
  let ?d = "[(0, ''A''), (1, ''B''), (2, ''!'')] :: char dictionary"
  have h1: "join_states ?d (strip_unknown ?d [0, 2]) = Inr ''A''"
    by (simp add: strip_unknown_def dict_len_def dict_get_def)
  have h2: "join_states ?d (strip_unknown ?d [1, 0]) = Inr ''BA''"
    by (simp add: strip_unknown_def dict_len_def dict_get_def)
  have h3: "join_states ?d (strip_unknown ?d [2]) = Inr []"
    by (simp add: strip_unknown_def dict_len_def)
  show ?thesis
    using calc_dist_defined_unless_both_empty [OF h1 h2]
      calc_dist_defined_unless_both_empty [OF h3 h3] h1 h2 h3
    by simp
qed

section \<open>The two metrics on AAAB and BAAA\<close>

text \<open>
  C3, as stated, fails: on \<open>AAAB\<close> and \<open>BAAA\<close> (state ids \<open>0 0 0 1\<close> and \<open>1 0 0 0\<close>
  under \<open>{0: 'A', 1: 'B', 2: '!'}\<close>) the substring distance equals the subsequence
  distance.
\<close>

theorem aaab_baaa_metrics_agree:
  "calc_dist_substr [0, 0, 0, 1] [1, 0, 0, 0] [(0, ''A''), (1, ''B''), (2, ''!'')]
   = calc_dist [0, 0, 0, 1] [1, 0, 0, 0] [(0, ''A''), (1, ''B''), (2, ''!'')]"
  by (simp add: dist_eval)

text \<open>
  C3, amended: on \<open>AAAB\<close> and \<open>BAAA\<close> both metrics give the distance 1/4, the longest
  common substring and the longest common subsequence both being \<open>AAA\<close>; the metrics
  do differ on \<open>ABAB\<close> and \<open>AABB\<close>, where the subsequence distance is 1/4 and the
  substring distance 1/2.
\<close>

theorem aaab_baaa_distances:
  "calc_dist [0, 0, 0, 1] [1, 0, 0, 0] [(0, ''A''), (1, ''B''), (2, ''!'')] = Inr (1 / 4) \<and>
   calc_dist_substr [0, 0, 0, 1] [1, 0, 0, 0] [(0, ''A''), (1, ''B''), (2, ''!'')] = Inr (1 / 4) \<and>
   calc_dist [0, 1, 0, 1] [0, 0, 1, 1] [(0, ''A''), (1, ''B''), (2, ''!'')] = Inr (1 / 4) \<and>
   calc_dist_substr [0, 1, 0, 1] [0, 0, 1, 1] [(0, ''A''), (1, ''B''), (2, ''!'')] = Inr (1 / 2)"
  by (simp add: dist_eval)

section \<open>Padding marks the filler frames, once and for all\<close>

text \<open>
  C9: \<open>expand_shorter_traj\<close> keeps the shape of \<open>pathways\<close>; a frame whose
  \<open>iteration_id\<close> is 0 gets the unknown index \<open>len(dictionary) - 1\<close> as its \<open>state_id\<close>
  and keeps its other fields, every other frame is unchanged; padding the padded
  pathways again changes nothing.
\<close>

theorem expand_shorter_traj_marks_padding:
  "length (expand_shorter_traj ps d) = length ps \<and>
   (\<forall>i<length ps. length (expand_shorter_traj ps d ! i) = length (ps ! i) \<and>
      (\<forall>j<length (ps ! i). expand_shorter_traj ps d ! i ! j =
          (if iter_id (ps ! i ! j) = 0 then (ps ! i ! j)\<lparr>state_id := dict_len d - 1\<rparr>
           else ps ! i ! j))) \<and>
   expand_shorter_traj (expand_shorter_traj ps d) d = expand_shorter_traj ps d"
  by (simp add: expand_shorter_traj_def)

theorem expand_shorter_traj_marks_padding_witness:
  "expand_shorter_traj
     [[\<lparr>iter_id = 1, seg_id = 4, state_id = 0, aux = [], weight = 1 / 2\<rparr>,
       \<lparr>iter_id = 0, seg_id = 0, state_id = 0, aux = [], weight = 0\<rparr>]]
     [(0, ''A''), (1, ''B''), (2, ''!'')] ! 0 ! 1
   = \<lparr>iter_id = 0, seg_id = 0, state_id = 2, aux = [], weight = 0\<rparr> \<and>
   expand_shorter_traj
     [[\<lparr>iter_id = 1, seg_id = 4, state_id = 0, aux = [], weight = 1 / 2\<rparr>,
       \<lparr>iter_id = 0, seg_id = 0, state_id = 0, aux = [], weight = 0\<rparr>]]
     [(0, ''A''), (1, ''B''), (2, ''!'')] ! 0 ! 0
   = \<lparr>iter_id = 1, seg_id = 4, state_id = 0, aux = [], weight = 1 / 2\<rparr>"
  using expand_shorter_traj_marks_padding
    [of "[[\<lparr>iter_id = 1, seg_id = 4, state_id = 0, aux = [], weight = 1 / 2\<rparr>,
           \<lparr>iter_id = 0, seg_id = 0, state_id = 0, aux = [], weight = 0\<rparr>]]"
        "[(0, ''A''), (1, ''B''), (2, ''!'')]"]
  by (simp add: dict_len_def)

section \<open>Symmetry, zero diagonal and range of the distances\<close>



section \<open>The subsequence metric against its reference definition\<close>

text \<open>
  C7: for a dictionary whose keys are \<open>0 .. len - 1\<close> (the unknown entry last) and any
  two sequences of its state ids, \<open>calc_dist\<close> is the reference definition: strip
  the entries equal to the highest key, map the rest through the dictionary, take the
  longest-common-subsequence length \<open>k\<close> and return \<open>1 - 2k / (len1 + len2)\<close>; where
  the reference has no value (both strings empty) the code raises.
\<close>

theorem calc_dist_refines_reference:
  assumes "d \<noteq> []" and "set (map fst d) = {0..<int (length d)}"
      and "set seq1 \<subseteq> set (map fst d)" and "set seq2 \<subseteq> set (map fst d)"
  shows "calc_dist seq1 seq2 d =
           (case calc_dist_ref seq1 seq2 d of None \<Rightarrow> Inl ZeroDivisionError | Some v \<Rightarrow> Inr v)"
proof -
  have n: "0 < int (length d)" using assms(1) by simp
  have "Max {0..<int (length d)} = int (length d) - 1"
    using n by (intro Max_eqI) auto
  then have unk: "unknown_index_ref d = dict_len d - 1"
    by (simp add: unknown_index_ref_def assms(2) dict_len_def del: set_map)
  have strip: "strip_unknown d seq = filter (\<lambda>x. x \<noteq> unknown_index_ref d) seq"
    if "set seq \<subseteq> set (map fst d)" for seq
  proof -
    have "x < dict_len d - 1 \<longleftrightarrow> x \<noteq> unknown_index_ref d" if "x \<in> set seq" for x
      using that \<open>set seq \<subseteq> set (map fst d)\<close> assms(2) unk by (auto simp: dict_len_def simp del: set_map)
    then show ?thesis unfolding strip_unknown_def by (intro filter_cong) auto
  qed
  have str: "join_states d (strip_unknown d seq) = Inr (state_string_ref d seq)"
    if "set seq \<subseteq> set (map fst d)" for seq
  proof -
    have "set (strip_unknown d seq) \<subseteq> set (map fst d)"
      using that by (auto simp: strip_unknown_def)
    then show ?thesis
      by (simp only: join_states_keys state_string_ref_def strip[OF that])
  qed
  show ?thesis
    by (simp add: calc_dist_def str[OF assms(3)] str[OF assms(4)] calc_dist_ref_def
        one_minus_similarity_def Let_def)
qed

theorem calc_dist_refines_reference_witness:
  "calc_dist [0, 1, 2, 0] [1, 2, 0] [(0, ''A''), (1, ''B''), (2, ''!'')] = Inr (1 / 5) \<and>
   calc_dist_ref [0, 1, 2, 0] [1, 2, 0] [(0, ''A''), (1, ''B''), (2, ''!'')] = Some (1 / 5) \<and>
   calc_dist [2] [2, 2] [(0, ''A''), (1, ''B''), (2, ''!'')] = Inl ZeroDivisionError \<and>
   calc_dist_ref [2] [2, 2] [(0, ''A''), (1, ''B''), (2, ''!'')] = None"
proof -
  let ?d = "[(0, ''A''), (1, ''B''), (2, ''!'')] :: char dictionary"
  have h1: "?d \<noteq> []" by simp
  have h2: "set (map fst ?d) = {0..<int (length ?d)}" by auto
  have r1: "calc_dist_ref [0, 1, 2, 0] [1, 2, 0] ?d = Some (1 / 5)"
    by (simp add: calc_dist_ref_def state_string_ref_def unknown_index_ref_def)
  have r2: "calc_dist_ref [2] [2, 2] ?d = None"
    by (simp add: calc_dist_ref_def state_string_ref_def unknown_index_ref_def)
  show ?thesis
    using calc_dist_refines_reference [OF h1 h2, of "[0, 1, 2, 0]" "[1, 2, 0]"] calc_dist_refines_reference [OF h1 h2, of "[2]" "[2, 2]"] r1 r2
    by simp
qed

section \<open>The default cluster list starts at the empty cluster 0\<close>

text \<open>
  C10: with no cluster list, \<open>determine_clusters\<close> returns \<open>[0, ..., max(cluster_labels)]\<close>,
  which holds 0. Flat-cluster labels are 1-based, so no pathway has label 0: with
  one label, one weight per pathway, \<open>select_rep\<close> on cluster 0 selects nothing and the
  \<open>argmax\<close> over no weights raises, and so does the plain export with the default list.
\<close>

theorem default_clusters_start_at_empty_cluster:
  assumes "cluster_labels \<noteq> []" and "\<forall>l\<in>set cluster_labels. 1 \<le> l"
      and "length data_arr = length cluster_labels" and "length weights = length cluster_labels"
  shows "determine_clusters cluster_labels None = Inr [0..Max (set cluster_labels)] \<and>
         0 \<in> set [0..Max (set cluster_labels)] \<and>
         select_rep data_arr weights cluster_labels 0 = Inl ValueError \<and>
         export_std_files data_arr weights cluster_labels None = Inl ValueError"
proof -
  obtain l ls where ls: "cluster_labels = l # ls"
    using assms(1) by (cases cluster_labels) auto
  have dc: "determine_clusters cluster_labels None = Inr [0..Max (set cluster_labels)]"
    by (simp add: determine_clusters_def ls fold_max_Max)
  have "1 \<le> l" using assms(2) ls by simp
  also have "l \<le> Max (set cluster_labels)" by (simp add: ls)
  finally have pos: "0 \<le> Max (set cluster_labels)" by simp
  have "\<forall>l\<in>set cluster_labels. l \<noteq> 0" using assms(2) by fastforce
  with assms(3,4) have sr: "select_rep data_arr weights cluster_labels 0 = Inl ValueError"
    by (rule select_rep_empty)
  have up: "[0..Max (set cluster_labels)] = 0 # [1..Max (set cluster_labels)]"
    using pos by (simp add: upto_rec1)
  then have "export_std_files data_arr weights cluster_labels None = Inl ValueError"
    by (simp add: export_std_files_def dc sr)
  with dc sr pos show ?thesis by simp
qed

theorem default_clusters_start_at_empty_cluster_witness:
  "determine_clusters [1, 2, 1] None = Inr [0, 1, 2] \<and>
   select_rep [[], [], []] [1, 1, 1] [1, 2, 1] 0 = Inl ValueError \<and>
   export_std_files [[], [], []] [1, 1, 1] [1, 2, 1] None = Inl ValueError"
  using default_clusters_start_at_empty_cluster [of "[1, 2, 1]" "[[], [], []]" "[1, 1, 1]"]
  by (simp add: upto_rec1)

section \<open>The representative weight\<close>

text \<open>
  C1, what the code does: with one label and one weight per pathway, a cluster that
  has a member and no pathway without frames, \<open>select_rep\<close> returns the members of
  the cluster and finds the first member \<open>k\<close> of maximum weight among them; what it
  returns as \<open>rep_weight\<close> is row 0 of that member, a frame, and not the maximum
  weight itself.
\<close>

theorem select_rep_returns_first_frame:
  assumes "length data_arr = length cluster_labels" and "length weights = length cluster_labels"
      and "icluster \<in> set cluster_labels" and "\<forall>p\<in>set data_arr. p \<noteq> []"
  shows "\<exists>k. select_rep data_arr weights cluster_labels icluster =
               Inr (map snd (filter (\<lambda>lp. fst lp = icluster) (zip cluster_labels data_arr)),
                    hd (map snd (filter (\<lambda>lp. fst lp = icluster) (zip cluster_labels data_arr)) ! k)) \<and>
             k < length (filter (\<lambda>lw. fst lw = icluster) (zip cluster_labels weights)) \<and>
             map snd (filter (\<lambda>lw. fst lw = icluster) (zip cluster_labels weights)) ! k =
               Max (set (map snd (filter (\<lambda>lw. fst lw = icluster) (zip cluster_labels weights)))) \<and>
             (\<forall>j<k. map snd (filter (\<lambda>lw. fst lw = icluster) (zip cluster_labels weights)) ! j <
                     map snd (filter (\<lambda>lw. fst lw = icluster) (zip cluster_labels weights)) ! k)"
proof -
  have sel: "map snd (filter fst (zip (map (\<lambda>l. l = icluster) ls) xs)) =
             map snd (filter (\<lambda>lp. fst lp = icluster) (zip ls xs))" for ls :: "int list" and xs :: "'b list"
    by (induction ls xs rule: list_induct2') auto
  define data_cl where "data_cl = map snd (filter (\<lambda>lp. fst lp = icluster) (zip cluster_labels data_arr))"
  define weights_cl where "weights_cl = map snd (filter (\<lambda>lw. fst lw = icluster) (zip cluster_labels weights))"
  have m1: "mask_select (map (\<lambda>l. l = icluster) cluster_labels) data_arr = Inr data_cl"
    using assms(1) by (simp add: mask_select_def sel data_cl_def)
  have m2: "mask_select (map (\<lambda>l. l = icluster) cluster_labels) weights = Inr weights_cl"
    using assms(2) by (simp add: mask_select_def sel weights_cl_def)
  have len: "length data_cl = length weights_cl"
    using assms(1,2) unfolding data_cl_def weights_cl_def
  proof (induction cluster_labels arbitrary: data_arr weights)
    case Nil
    then show ?case by simp
  next
    case (Cons l ls)
    then obtain p ps w ws where "data_arr = p # ps" "weights = w # ws"
      by (cases data_arr; cases weights) auto
    with Cons show ?case by auto
  qed
  obtain i where i: "i < length cluster_labels" "cluster_labels ! i = icluster"
    using assms(3) by (auto simp: in_set_conv_nth)
  have "(icluster, weights ! i) \<in> set (zip cluster_labels weights)"
    using i assms(2) by (auto simp: in_set_zip)
  then have wne: "weights_cl \<noteq> []"
    by (force simp: weights_cl_def filter_empty_conv)
  obtain k where k: "argmax weights_cl = Inr k" "k < length weights_cl"
      "weights_cl ! k = Max (set weights_cl)" "\<forall>j<k. weights_cl ! j < weights_cl ! k"
    using argmax_first_max[OF wne] by blast
  have "set data_cl \<subseteq> set data_arr"
    by (auto simp: data_cl_def dest: set_zip_rightD)
  then have pne: "data_cl ! k \<noteq> []"
    using assms(4) k(2) len by (metis nth_mem subsetD)
  have "select_rep data_arr weights cluster_labels icluster = Inr (data_cl, hd (data_cl ! k))"
    using k(1,2) len pne by (simp add: select_rep_def m1 m2)
  then show ?thesis
    using k unfolding data_cl_def weights_cl_def by (intro exI[of _ k]) simp
qed

text \<open>
  At a cluster of one pathway of two frames whose terminal weight is 1/4, the value
  returned as \<open>rep_weight\<close> is the first frame (whose own weight column is 1/2), where
  the claim and the docstring have the float \<open>max(weights within cluster) = 1/4\<close>.
\<close>

theorem select_rep_returns_first_frame_witness:
  "select_rep
     [[\<lparr>iter_id = 1, seg_id = 0, state_id = 0, aux = [], weight = 1 / 2\<rparr>,
       \<lparr>iter_id = 2, seg_id = 0, state_id = 1, aux = [], weight = 1 / 4\<rparr>]]
     [1 / 4] [1] 1
   = Inr ([[\<lparr>iter_id = 1, seg_id = 0, state_id = 0, aux = [], weight = 1 / 2\<rparr>,
            \<lparr>iter_id = 2, seg_id = 0, state_id = 1, aux = [], weight = 1 / 4\<rparr>]],
          \<lparr>iter_id = 1, seg_id = 0, state_id = 0, aux = [], weight = 1 / 2\<rparr>)"
proof -
  let ?data = "[[\<lparr>iter_id = 1, seg_id = 0, state_id = 0, aux = [], weight = 1 / 2\<rparr>,
       \<lparr>iter_id = 2, seg_id = 0, state_id = 1, aux = [], weight = 1 / 4\<rparr>]]"
  have h1: "length ?data = length [1::int]" by simp
  have h2: "length [1 / 4 :: rat] = length [1::int]" by simp
  have h3: "(1::int) \<in> set [1]" by simp
  have h4: "\<forall>p\<in>set ?data. p \<noteq> []" by simp
  show ?thesis
    using select_rep_returns_first_frame [OF h1 h2 h3 h4]
    by simp
qed

section \<open>The cache of the distance matrix\<close>

text \<open>
  C4, what the code does: once the weights are computed, \<open>gen_dist_matrix\<close> tests the
  existence of the cache path \<open>out_dir/file_name\<close> (with \<open>out_dir\<close> cut at its last
  slash), but loads from \<open>file_name\<close> and saves to \<open>file_name\<close> (with \<open>.npy\<close>
  appended when missing): the cache path is neither read nor written.
\<close>

theorem gen_dist_matrix_uses_file_name:
  assumes "collect (map (pathway_weight metric d) pathways) = Inr ws"
  shows "gen_dist_matrix fs pathways d file_name out_dir remake metric =
     (if exists fs (rsplit_head out_dir @ ''/'' @ file_name) \<and> \<not> remake
      then (case fs file_name of
              None \<Rightarrow> Inl FileNotFoundError
            | Some m \<Rightarrow> Inr ((m, ws), fs))
      else (case pairwise_distances (dist_metric metric d) (map path_string pathways) of
              Inl e \<Rightarrow> Inl e
            | Inr m \<Rightarrow> Inr ((m, ws), fs(npy_name file_name \<mapsto> m))))"
  using assms by (rule gen_dist_matrix_given_weights)

text \<open>
  At \<open>out_dir = "succ_traj"\<close> and \<open>file_name = "distmat.npy"\<close>, whose cache path is
  \<open>succ_traj/distmat.npy\<close>: with a matrix stored at the cache path and \<open>remake\<close> false,
  the code raises when \<open>distmat.npy\<close> is missing from the working directory and
  returns that file's matrix, not the cached one, when it is there; when it
  recomputes, it saves to \<open>distmat.npy\<close> and the cache path stays empty.
\<close>

theorem gen_dist_matrix_uses_file_name_witness:
  "gen_dist_matrix [''succ_traj/distmat.npy'' \<mapsto> [[0]]]
     [[\<lparr>iter_id = 1, seg_id = 0, state_id = 0, aux = [], weight = 1\<rparr>]]
     [(0, ''A''), (1, ''B''), (2, ''!'')] ''distmat.npy'' ''succ_traj'' False True
   = Inl FileNotFoundError \<and>
   gen_dist_matrix [''succ_traj/distmat.npy'' \<mapsto> [[0]], ''distmat.npy'' \<mapsto> [[7]]]
     [[\<lparr>iter_id = 1, seg_id = 0, state_id = 0, aux = [], weight = 1\<rparr>]]
     [(0, ''A''), (1, ''B''), (2, ''!'')] ''distmat.npy'' ''succ_traj'' False True
   = Inr (([[7]], [1]), [''succ_traj/distmat.npy'' \<mapsto> [[0]], ''distmat.npy'' \<mapsto> [[7]]]) \<and>
   gen_dist_matrix Map.empty
     [[\<lparr>iter_id = 1, seg_id = 0, state_id = 0, aux = [], weight = 1\<rparr>]]
     [(0, ''A''), (1, ''B''), (2, ''!'')] ''distmat.npy'' ''succ_traj'' True True
   = Inr (([[0]], [1]), [''distmat.npy'' \<mapsto> [[0]]]) \<and>
   [''distmat.npy'' \<mapsto> [[0::rat]]] ''succ_traj/distmat.npy'' = None"
proof -
  let ?d = "[(0, ''A''), (1, ''B''), (2, ''!'')] :: char dictionary"
  let ?ps = "[[\<lparr>iter_id = 1, seg_id = 0, state_id = 0, aux = [], weight = 1\<rparr>]]"
  have h: "collect (map (pathway_weight True ?d) ?ps) = Inr [1]"
    by (simp add: pathway_weight_def dict_len_def)
  show ?thesis
    using gen_dist_matrix_uses_file_name [OF h, of "[''succ_traj/distmat.npy'' \<mapsto> [[0]]]"
        "''distmat.npy''" "''succ_traj''" False]
      gen_dist_matrix_uses_file_name [OF h,
        of "[''succ_traj/distmat.npy'' \<mapsto> [[0]], ''distmat.npy'' \<mapsto> [[7]]]"
        "''distmat.npy''" "''succ_traj''" False]
      gen_dist_matrix_uses_file_name [OF h, of Map.empty "''distmat.npy''" "''succ_traj''" True]
    by (simp add: rsplit_head_def exists_def npy_name_def suffix_to_prefix path_string_def
        dist_metric_def pairwise_distances_def pair_entry_def dist_eval)
qed

section \<open>The weights and comparison sequences of the distance matrix\<close>

text \<open>
  C5, as stated, fails under the substring metric (\<open>metric\<close> false): a pathway whose
  last frame is a padding frame (state 2, the unknown index, weight 0) gets the weight
  0 of that frame, not the weight 1/2 of its terminal non-padding frame.
\<close>

theorem substring_weight_is_last_frame:
  "gen_dist_matrix Map.empty
     [[\<lparr>iter_id = 1, seg_id = 0, state_id = 0, aux = [], weight = 1 / 2\<rparr>,
       \<lparr>iter_id = 0, seg_id = 0, state_id = 2, aux = [], weight = 0\<rparr>]]
     [(0, ''A''), (1, ''B''), (2, ''!'')] ''distmat.npy'' ''succ_traj'' True False
   = Inr (([[0]], [0]), [''distmat.npy'' \<mapsto> [[0]]])"
  by (simp add: gen_eval dist_eval)

text \<open>
  C5, amended: let every pathway have a frame whose state is below the unknown index
  under the subsequence metric, and a frame at all under the substring metric. Then
  every result of \<open>gen_dist_matrix\<close> carries, per pathway, the weight field of the last
  frame whose state is below the unknown index under the subsequence metric, and the
  weight field of the last frame, padding or not, under the substring metric; and it
  does return, with the matrix of the metric over the \<open>state_id\<close> columns, whenever
  that matrix is computed (\<open>remake\<close> set).
\<close>

theorem gen_dist_matrix_weights:
  assumes "\<forall>p\<in>set pathways.
             (if metric then filter (\<lambda>step. state_id step < dict_len d - 1) p else p) \<noteq> []"
  shows "(\<forall>distmat weights fs'.
            gen_dist_matrix fs pathways d file_name out_dir remake metric
              = Inr ((distmat, weights), fs') \<longrightarrow>
            weights = map (\<lambda>p. weight (last
              (if metric then filter (\<lambda>step. state_id step < dict_len d - 1) p else p))) pathways) \<and>
         (\<forall>distmat.
            pairwise_distances
              (\<lambda>x y. if metric then calc_dist x y d else calc_dist_substr x y d)
              (map (map state_id) pathways) = Inr distmat \<longrightarrow> remake \<longrightarrow>
            gen_dist_matrix fs pathways d file_name out_dir remake metric
              = Inr ((distmat, map (\<lambda>p. weight (last
                  (if metric then filter (\<lambda>step. state_id step < dict_len d - 1) p else p))) pathways),
                     numpy_save fs file_name distmat))"
proof -
  define W where "W = map (\<lambda>p. weight (last
              (if metric then filter (\<lambda>step. state_id step < dict_len d - 1) p else p))) pathways"
  have "pathway_weight metric d p = Inr (weight (last
          (if metric then filter (\<lambda>step. state_id step < dict_len d - 1) p else p)))"
    if "p \<in> set pathways" for p
    using assms that by (cases metric) (auto simp: pathway_weight_def Let_def)
  then have w: "collect (map (pathway_weight metric d) pathways) = Inr W"
    unfolding W_def by (rule collect_map_Inr)
  have m: "(\<lambda>x y. if metric then calc_dist x y d else calc_dist_substr x y d) = dist_metric metric d"
    by (rule ext, rule ext) (simp add: dist_metric_def)
  have p: "map (map state_id) pathways = map path_string pathways"
    by (simp add: path_string_def)
  note eq = gen_dist_matrix_given_weights [OF w, of fs file_name out_dir remake]
  have a: "weights = W"
    if "gen_dist_matrix fs pathways d file_name out_dir remake metric = Inr ((distmat, weights), fs')"
    for distmat weights fs'
    using that unfolding eq by (simp split: if_splits option.splits sum.splits)
  have b: "gen_dist_matrix fs pathways d file_name out_dir remake metric
              = Inr ((distmat, W), numpy_save fs file_name distmat)"
    if "pairwise_distances (dist_metric metric d) (map path_string pathways) = Inr distmat" remake
    for distmat
    unfolding eq using that by (simp add: numpy_save_def)
  show ?thesis
    unfolding m p W_def [symmetric] using a b by blast
qed

theorem gen_dist_matrix_weights_witness:
  "gen_dist_matrix Map.empty
     [[\<lparr>iter_id = 1, seg_id = 0, state_id = 0, aux = [], weight = 1 / 2\<rparr>,
       \<lparr>iter_id = 2, seg_id = 0, state_id = 1, aux = [], weight = 1 / 4\<rparr>,
       \<lparr>iter_id = 0, seg_id = 0, state_id = 2, aux = [], weight = 0\<rparr>]]
     [(0, ''A''), (1, ''B''), (2, ''!'')] ''distmat.npy'' ''succ_traj'' True True
   = Inr (([[0]], [1 / 4]), [''distmat.npy'' \<mapsto> [[0]]])"
proof -
  let ?d = "[(0, ''A''), (1, ''B''), (2, ''!'')] :: char dictionary"
  let ?ps = "[[\<lparr>iter_id = 1, seg_id = 0, state_id = 0, aux = [], weight = 1 / 2\<rparr>,
       \<lparr>iter_id = 2, seg_id = 0, state_id = 1, aux = [], weight = 1 / 4\<rparr>,
       \<lparr>iter_id = 0, seg_id = 0, state_id = 2, aux = [], weight = 0\<rparr>]]"
  have h: "\<forall>p\<in>set ?ps.
             (if True then filter (\<lambda>step. state_id step < dict_len ?d - 1) p else p) \<noteq> []"
    by (simp add: dict_len_def)
  have m: "pairwise_distances (\<lambda>x y. if True then calc_dist x y ?d else calc_dist_substr x y ?d)
              (map (map state_id) ?ps) = Inr [[0]]"
    by (simp add: pairwise_distances_def pair_entry_def dist_eval)
  have s: "numpy_save Map.empty ''distmat.npy'' [[0]] = [''distmat.npy'' \<mapsto> [[0]]]"
    by (simp add: numpy_save_def npy_name_def suffix_to_prefix)
  have "gen_dist_matrix Map.empty ?ps ?d ''distmat.npy'' ''succ_traj'' True True
          = Inr (([[0]], map (\<lambda>p. weight (last
              (if True then filter (\<lambda>step. state_id step < dict_len ?d - 1) p else p))) ?ps),
                 numpy_save Map.empty ''distmat.npy'' [[0]])"
    using gen_dist_matrix_weights [OF h, of Map.empty "''distmat.npy''" "''succ_traj''" True] m
    by blast
  then show ?thesis
    unfolding s by (simp add: dict_len_def)
qed

section \<open>Reassignment by segment id\<close>

text \<open>
  C8, as stated, fails: a data set whose only segment id is 5 keeps 5 as its
  \<open>state_id\<close> (the dense range of one id would be 0 alone), and the dictionary gets
  the six characters of 0 to 5 and the unknown entry at 6.
\<close>

theorem reassign_segid_no_dense_remap:
  "reassign_segid
     [[\<lparr>iter_id = 1, seg_id = 5, state_id = 0, aux = [], weight = 1\<rparr>]]
     [[zero_frame 0]] []
   = Inr ([[\<lparr>iter_id = 1, seg_id = 5, state_id = 5, aux = [], weight = 1\<rparr>]],
          [(0, [65]), (1, [66]), (2, [67]), (3, [68]), (4, [69]), (5, [70]), (6, [33])])"
  by (simp add: segid_eval)

text \<open>
  C8, amended: on the array made by \<open>load_data\<close> and an empty dictionary, with segment
  ids from 0 to 1114046 (so that \<open>chr\<close> is defined), \<open>reassign_segid\<close> copies every
  pathway in reverse order, overwrites each frame's \<open>state_id\<close> with its \<open>segment_id\<close>
  as it is (no remapping), leaves the filler rows zero, and returns the dictionary
  with one entry per index from 0 to the largest segment id, each mapped to the
  character \<open>chr(idx + 65)\<close>, and the unknown entry \<open>'!'\<close> at the next, highest index;
  the state strings of the dictionary are pairwise different.
\<close>

theorem reassign_segid_keeps_segment_ids:
  assumes "load_data data = Inr (data, pathways)"
      and "\<forall>step\<in>set (concat data). 0 \<le> seg_id step \<and> seg_id step \<le> 1114046"
  shows "\<exists>pathways' d n_states.
           reassign_segid data pathways [] = Inr (pathways', d) \<and>
           pathways' = map (\<lambda>val. map (\<lambda>val2. val2\<lparr>state_id := seg_id val2\<rparr>) (rev val) @
                              replicate (Max (set (map length data)) - length val)
                                (zero_frame (length (aux (hd (hd data)))))) data \<and>
           n_states = Max (set (map seg_id (concat data))) + 1 \<and>
           d = map (\<lambda>idx. (idx, [nat (idx + 65)])) [0..n_states - 1] @ [(n_states, [33])] \<and>
           distinct (map snd d)"
proof -
  from assms(1) have ne: "data \<noteq> []" and hne: "hd data \<noteq> []"
    by (auto simp: load_data_def split: if_splits)
  define L where "L = Max (set (map length data))"
  define z where "z = zero_frame (length (aux (hd (hd data))))"
  have data: "data = hd data # tl data" using ne by simp
  have "fold max (map length (tl data)) (length (hd data)) = Max (set (map length (hd data # tl data)))"
    by (simp only: list.map Max.set_eq_fold)
  then have Lf: "fold max (map length (tl data)) (length (hd data)) = L"
    using data by (simp add: L_def)
  have ps: "pathways = replicate (length data) (replicate L z)"
    using assms(1) ne hne by (simp add: load_data_def Lf z_def)
  have lenL: "length val \<le> L" if "val \<in> set data" for val
    unfolding L_def using that by (intro Max_ge) auto
  define ps' where "ps' = map (\<lambda>val. map segid_row (rev val) @ replicate (L - length val) z) data"
  have cd: "copy_data segid_row 0 data pathways = Inr ps'"
    unfolding ps ps'_def using lenL by (rule copy_data_zeros)
  define S where "S = set (map seg_id (concat data))"
  have Sne: "S \<noteq> {}" and Sfin: "finite S"
    using ne hne data by (auto simp: S_def)
  have Sb: "0 \<le> x \<and> x \<le> 1114046" if "x \<in> S" for x
    using that assms(2) by (auto simp: S_def)
  define A where "A = set (map state_id (concat ps'))"
  have A_sub: "A \<subseteq> S \<union> {0}"
    by (auto simp: A_def ps'_def S_def segid_row_def z_def zero_frame_def)
  have S_sub: "S \<subseteq> A"
    by (force simp: A_def ps'_def S_def segid_row_def)
  have Ane: "A \<noteq> {}" using S_sub Sne by auto
  have Afin: "finite A" by (simp add: A_def)
  have MaxA: "Max A = Max S"
  proof (rule antisym)
    have "Max A \<in> A" using Afin Ane by (rule Max_in)
    then have "Max A \<in> S \<or> Max A = 0" using A_sub by auto
    moreover have "0 \<le> Max S" using Sb[of "Max S"] Max_in[OF Sfin Sne] by simp
    ultimately show "Max A \<le> Max S" using Max_ge[OF Sfin] by auto
    show "Max S \<le> Max A" using Max_mono[OF S_sub Sne Afin] .
  qed
  have cne: "map state_id (concat ps') \<noteq> []"
    using Ane by (auto simp: A_def)
  then obtain a as where as: "map state_id (concat ps') = a # as"
    by (cases "map state_id (concat ps')") auto
  have pm: "py_max (map state_id (concat ps')) = Inr (Max S)"
    using MaxA by (simp add: as fold_max_Max A_def)
  define m where "m = Max S"
  have mb: "0 \<le> m \<and> m \<le> 1114046"
    unfolding m_def using Sb[of "Max S"] Max_in[OF Sfin Sne] by simp
  have fl: "fill_letters [0..m] [] = Inr ([] @ map (\<lambda>idx. (idx, [nat (idx + 65)])) [0..m])"
    using mb by (intro fill_letters_fresh) auto
  define d0 where "d0 = map (\<lambda>idx. (idx, [nat (idx + 65)])) [0..m]"
  have fresh: "m + 1 \<notin> fst ` set d0" by (auto simp: d0_def)
  have res: "reassign_segid data pathways [] = Inr (ps', d0 @ [(m + 1, [33])])"
    using fl by (simp add: reassign_segid_def cd pm m_def[symmetric] d0_def[symmetric]
        dict_set_fresh[OF fresh])
  have inj: "inj_on (\<lambda>idx::int. [nat (idx + 65)]) {0..m}"
    by (auto simp: inj_on_def)
  have dist: "distinct (map snd (d0 @ [(m + 1, [33])]))"
    using inj by (auto simp: d0_def distinct_map o_def)
  have seg: "(\<lambda>val2. val2\<lparr>state_id := seg_id val2\<rparr>) = segid_row"
    by (rule ext) (simp add: segid_row_def)
  show ?thesis
    unfolding seg using res dist
    by (simp add: ps'_def L_def z_def m_def S_def d0_def)
qed

theorem reassign_segid_keeps_segment_ids_witness:
  "load_data
     [[\<lparr>iter_id = 2, seg_id = 1, state_id = 7, aux = [], weight = 1 / 4\<rparr>,
       \<lparr>iter_id = 1, seg_id = 0, state_id = 3, aux = [], weight = 1 / 2\<rparr>],
      [\<lparr>iter_id = 1, seg_id = 2, state_id = 3, aux = [], weight = 1\<rparr>]]
   = Inr ([[\<lparr>iter_id = 2, seg_id = 1, state_id = 7, aux = [], weight = 1 / 4\<rparr>,
            \<lparr>iter_id = 1, seg_id = 0, state_id = 3, aux = [], weight = 1 / 2\<rparr>],
           [\<lparr>iter_id = 1, seg_id = 2, state_id = 3, aux = [], weight = 1\<rparr>]],
          [[zero_frame 0, zero_frame 0], [zero_frame 0, zero_frame 0]]) \<and>
   reassign_segid
     [[\<lparr>iter_id = 2, seg_id = 1, state_id = 7, aux = [], weight = 1 / 4\<rparr>,
       \<lparr>iter_id = 1, seg_id = 0, state_id = 3, aux = [], weight = 1 / 2\<rparr>],
      [\<lparr>iter_id = 1, seg_id = 2, state_id = 3, aux = [], weight = 1\<rparr>]]
     [[zero_frame 0, zero_frame 0], [zero_frame 0, zero_frame 0]] []
   = Inr ([[\<lparr>iter_id = 1, seg_id = 0, state_id = 0, aux = [], weight = 1 / 2\<rparr>,
            \<lparr>iter_id = 2, seg_id = 1, state_id = 1, aux = [], weight = 1 / 4\<rparr>],
           [\<lparr>iter_id = 1, seg_id = 2, state_id = 2, aux = [], weight = 1\<rparr>, zero_frame 0]],
          [(0, [65]), (1, [66]), (2, [67]), (3, [33])])"
proof -
  let ?data = "[[\<lparr>iter_id = 2, seg_id = 1, state_id = 7, aux = [], weight = 1 / 4\<rparr>,
       \<lparr>iter_id = 1, seg_id = 0, state_id = 3, aux = [], weight = 1 / 2\<rparr>],
      [\<lparr>iter_id = 1, seg_id = 2, state_id = 3, aux = [], weight = 1\<rparr>]]"
  let ?ps = "[[zero_frame 0, zero_frame 0], [zero_frame 0, zero_frame 0]]"
  have h1: "load_data ?data = Inr (?data, ?ps)"
    by (simp add: load_data_def numeral_2_eq_2)
  have h2: "\<forall>step\<in>set (concat ?data). 0 \<le> seg_id step \<and> seg_id step \<le> 1114046"
    by simp
  have e: "reassign_segid ?data ?ps []
     = Inr ([[\<lparr>iter_id = 1, seg_id = 0, state_id = 0, aux = [], weight = 1 / 2\<rparr>,
            \<lparr>iter_id = 2, seg_id = 1, state_id = 1, aux = [], weight = 1 / 4\<rparr>],
           [\<lparr>iter_id = 1, seg_id = 2, state_id = 2, aux = [], weight = 1\<rparr>, zero_frame 0]],
          [(0, [65]), (1, [66]), (2, [67]), (3, [33])])"
    by (simp add: segid_eval)
  show ?thesis
    using reassign_segid_keeps_segment_ids [OF h1 h2] h1 e by simp
qed

end
